theory Spec2Isabelle
  imports Main "HOL-Library.Sublist" "HOL-Library.AList"
begin

section \<open>Python values used by the tasklet\<close>

text \<open>
  Strings are byte strings (\<open>char list\<close>), as Python 2's \<open>str\<close>. A value that may
  be \<open>None\<close> is an \<open>option\<close>. Record ids are Python integers (\<open>int\<close>).
\<close>

definition startswith :: "string \<Rightarrow> string \<Rightarrow> bool" where
  \<comment> \<open>\<open>s.startswith(p)\<close>\<close>
  "startswith s p = prefix p s"

fun partition_str :: "string \<Rightarrow> string \<Rightarrow> string \<times> string \<times> string" where
  \<comment> \<open>\<open>s.partition(sep)\<close> for a non-empty \<open>sep\<close>: split at the first occurrence of
      \<open>sep\<close>; when there is none the result is \<open>(s, '''', '''')\<close>\<close>
  "partition_str [] sep = ([], [], [])"
| "partition_str (c # cs) sep =
     (if prefix sep (c # cs) then ([], sep, drop (length sep) (c # cs))
      else (case partition_str cs sep of (h, m, t) \<Rightarrow> (c # h, m, t)))"

definition truthy :: "string option \<Rightarrow> bool" where
  \<comment> \<open>truth value of a string-or-None in an \<open>if\<close>: neither \<open>None\<close> nor \<open>''''\<close>\<close>
  "truthy v = (case v of None \<Rightarrow> False | Some s \<Rightarrow> s \<noteq> [])"

definition format_opt :: "string option \<Rightarrow> string" where
  \<comment> \<open>what \<open>''{0}''.format(v)\<close> renders for a string-or-None: \<open>None\<close> is rendered
      as the four characters \<open>None\<close>\<close>
  "format_opt v = (case v of None \<Rightarrow> ''None'' | Some s \<Rightarrow> s)"

fun str_nat :: "nat \<Rightarrow> string" where
  "str_nat n =
     (if n < 10 then [''0123456789'' ! n]
      else str_nat (n div 10) @ [''0123456789'' ! (n mod 10)])"

declare str_nat.simps [simp del]

definition str_int :: "int \<Rightarrow> string" where
  \<comment> \<open>what \<open>''{0}''.format(i)\<close> renders for an integer\<close>
  "str_int i = (if i < 0 then CHR ''-'' # str_nat (nat (- i)) else str_nat (nat i))"

section \<open>Candidate selector: \<open>get_ccid\<close>\<close>

definition INSPIRE_MARK :: string where
  "INSPIRE_MARK = ''AUTHOR|(INSPIRE)''"

definition CCID_MARK :: string where
  "CCID_MARK = ''AUTHOR|(SzGeCERN)''"

text \<open>
  The loop of \<open>get_ccid\<close> over the values of field \<open>035__a\<close>, with the loop variable
  \<open>cern_id\<close> as accumulator. \<open>break\<close> leaves the loop with the accumulator as it is.
\<close>

fun ccid_loop :: "string option \<Rightarrow> string list \<Rightarrow> string option" where
  "ccid_loop cern_id [] = cern_id"
| "ccid_loop cern_id (control_number # rest) =
     (if startswith control_number INSPIRE_MARK then cern_id
      else if startswith control_number CCID_MARK
        then ccid_loop (Some (snd (snd (partition_str control_number CCID_MARK)))) rest
      else ccid_loop cern_id rest)"

definition get_ccid :: "(int \<Rightarrow> string list) \<Rightarrow> int \<Rightarrow> string option" where
  \<comment> \<open>\<open>get_fieldvalues\<close> is the local record store's answer for field \<open>035__a\<close>\<close>
  "get_ccid get_fieldvalues record_id = ccid_loop None (get_fieldvalues record_id)"

section \<open>The world outside the tasklet\<close>

text \<open>
  The tasklet talks to a web server, the file system, \<open>lxml\<close>, the local record store
  and the task scheduler. None of them is code of this repository: their answers are
  fields of an environment \<open>env\<close>, and each call is written into the \<open>trace\<close> of the
  \<open>world\<close> that the tasklet's functions pass along. A library call that fails
  raises an exception \<open>exn\<close>. A handler of the source catches the exception class it
  names; any other exception escapes the function, which then returns nothing.
\<close>

datatype element =
  Element (tag: string) (attrib: "(string \<times> string) list") (elem_text: "string option")
    (children: "element list") (tail: "string option")

text \<open>
  \<open>element\<close> is \<open>lxml\<close>'s element: its tag, its attributes, the text before its first
  child (\<open>.text\<close>, possibly \<open>None\<close>), its child nodes and the text after its end tag
  (\<open>.tail\<close>). A comment or processing instruction is a child node too; it is an
  \<open>element\<close> with no children whose \<open>tag\<close> is not a name.
\<close>

datatype message =
    CopyFailed string string
  | UnzipFailed string
  | RemoveFailed string
  | ParseFailed
  | UpdatesWritten string
  | TaskSubmitted nat
  | WriteFailed string
  | NoUpdates
  | IdsRequested nat

datatype event =
    Urlretrieve string string
  | GzipRead string
  | OsRemove string
  | FileWrite string string
  | Submission "string list"
  | Message message

record world =
  files :: "string \<Rightarrow> string option"
  tasks :: "string list list"
  trace :: "event list"

datatype exn = IOError | OSError | ValueError | XMLSyntaxError | ZlibError

record env =
  remote :: "string \<Rightarrow> exn + string"
  unwritable :: "string \<Rightarrow> bool"
  undeletable :: "string \<Rightarrow> bool"
  gunzip :: "string \<Rightarrow> exn + string"
  xml_parser :: "string \<Rightarrow> element option"
  perform_request_search :: "int list"
  get_fieldvalues :: "int \<Rightarrow> string list"

definition emit :: "event \<Rightarrow> world \<Rightarrow> world" where
  "emit e w = w\<lparr>trace := trace w @ [e]\<rparr>"

definition write_message :: "message \<Rightarrow> world \<Rightarrow> world" where
  "write_message m w = emit (Message m) w"

definition urlretrieve :: "env \<Rightarrow> string \<Rightarrow> string \<Rightarrow> world \<Rightarrow> (exn + unit) \<times> world" where
  \<comment> \<open>\<open>urllib.urlretrieve(src, dest)\<close>: raises what the transfer raises (\<open>IOError\<close>
      for a failed connection), \<open>IOError\<close> when \<open>dest\<close> cannot be written, else the
      body is stored at \<open>dest\<close>\<close>
  "urlretrieve E src dest w =
     (let w1 = emit (Urlretrieve src dest) w in
      case remote E src of
        Inl e \<Rightarrow> (Inl e, w1)
      | Inr body \<Rightarrow>
          if unwritable E dest then (Inl IOError, w1)
          else (Inr (), w1\<lparr>files := (files w1)(dest \<mapsto> body)\<rparr>))"

definition gzip_read :: "env \<Rightarrow> string \<Rightarrow> world \<Rightarrow> (exn + string) \<times> world" where
  \<comment> \<open>\<open>gzip.open(path, ''rb'')\<close>, \<open>read()\<close>, \<open>close()\<close>: \<open>IOError\<close> when the file is
      missing; else what decompression raises (\<open>IOError\<close> for data that is not gzip,
      \<open>zlib.error\<close>, here \<open>ZlibError\<close>, for a corrupt deflate stream) or the content\<close>
  "gzip_read E path w =
     (let w1 = emit (GzipRead path) w in
      case files w1 path of
        None \<Rightarrow> (Inl IOError, w1)
      | Some bytes \<Rightarrow>
          (case gunzip E bytes of
             Inl e \<Rightarrow> (Inl e, w1)
           | Inr content \<Rightarrow> (Inr content, w1)))"

definition os_remove :: "env \<Rightarrow> string \<Rightarrow> world \<Rightarrow> (exn + unit) \<times> world" where
  \<comment> \<open>\<open>os.remove(path)\<close>: \<open>OSError\<close> when there is no such file or it cannot be
      deleted\<close>
  "os_remove E path w =
     (let w1 = emit (OsRemove path) w in
      if files w1 path = None \<or> undeletable E path then (Inl OSError, w1)
      else (Inr (), w1\<lparr>files := (files w1)(path := None)\<rparr>))"

definition file_write :: "env \<Rightarrow> string \<Rightarrow> string \<Rightarrow> world \<Rightarrow> (exn + unit) \<times> world" where
  \<comment> \<open>\<open>with open(path, ''w'') as f: f.write(content)\<close>: \<open>IOError\<close> (an
      \<open>EnvironmentError\<close>) when the file cannot be written\<close>
  "file_write E path content w =
     (let w1 = emit (FileWrite path content) w in
      if unwritable E path then (Inl IOError, w1)
      else (Inr (), w1\<lparr>files := (files w1)(path \<mapsto> content)\<rparr>))"

definition task_low_level_submission :: "string list \<Rightarrow> world \<Rightarrow> nat \<times> world" where
  \<comment> \<open>the scheduler queues the task and answers with its id; ids count up\<close>
  "task_low_level_submission args w =
     (let w1 = emit (Submission args) w in
      (Suc (length (tasks w1)), w1\<lparr>tasks := tasks w1 @ [args]\<rparr>))"

definition etree_fromstring :: "env \<Rightarrow> string option \<Rightarrow> exn + element" where
  \<comment> \<open>\<open>etree.fromstring\<close>: \<open>ValueError\<close> for \<open>None\<close>, \<open>XMLSyntaxError\<close> for the empty
      document and for any text that is not well-formed, else the root element\<close>
  "etree_fromstring E xml_content =
     (case xml_content of
        None \<Rightarrow> Inl ValueError
      | Some s \<Rightarrow>
          if s = [] then Inl XMLSyntaxError
          else (case xml_parser E s of None \<Rightarrow> Inl XMLSyntaxError | Some root \<Rightarrow> Inr root))"

definition path_join :: "string \<Rightarrow> string \<Rightarrow> string" where
  \<comment> \<open>\<open>os.path.join(a, b)\<close> for a relative \<open>b\<close>\<close>
  "path_join a b = (if a = [] \<or> last a = CHR ''/'' then a @ b else a @ ''/'' @ b)"

section \<open>Dump fetcher: \<open>get_inspire_dump\<close>\<close>

text \<open>
  The result is \<open>Inr\<close> of the returned value, or \<open>Inl\<close> of the exception that escapes.
  Each \<open>except\<close> clause catches the one class it names. An exception that escapes the
  read leaves the function before the removal.
\<close>

definition get_inspire_dump ::
  "env \<Rightarrow> string \<Rightarrow> string \<Rightarrow> world \<Rightarrow> (exn + string option) \<times> world" where
  "get_inspire_dump E src dest_gz_tmp w =
     (case urlretrieve E src dest_gz_tmp w of
        (Inl e, w1) \<Rightarrow>
          if e = IOError then (Inr None, write_message (CopyFailed src dest_gz_tmp) w1)
          else (Inl e, w1)
      | (Inr u, w1) \<Rightarrow>
          (case (case gzip_read E dest_gz_tmp w1 of
                   (Inl e, w') \<Rightarrow>
                     if e = IOError
                     then Inr (None, write_message (UnzipFailed dest_gz_tmp) w')
                     else Inl (e, w')
                 | (Inr content, w') \<Rightarrow> Inr (Some content, w')) of
             Inl (e, w') \<Rightarrow> (Inl e, w')
           | Inr (xml_file_content, w2) \<Rightarrow>
               (case os_remove E dest_gz_tmp w2 of
                  (Inl e, w') \<Rightarrow>
                    if e = OSError
                    then (Inr xml_file_content, write_message (RemoveFailed dest_gz_tmp) w')
                    else (Inl e, w')
                | (Inr u, w') \<Rightarrow> (Inr xml_file_content, w'))))"

section \<open>Dump parser: \<open>parse_inspire_xml\<close>\<close>

definition text_nodes :: "element \<Rightarrow> string list" where
  \<comment> \<open>the text nodes that are children of an element (XPath \<open>text()\<close>): its \<open>.text\<close>
      and the \<open>.tail\<close> of each child\<close>
  "text_nodes e = List.map_filter (\<lambda>x. x) (elem_text e # map tail (children e))"

definition xpath_datafield_035 :: "element \<Rightarrow> element list" where
  \<comment> \<open>\<open>record.xpath(''datafield[@tag='035']'')\<close>\<close>
  "xpath_datafield_035 record =
     filter (\<lambda>d. tag d = ''datafield'' \<and> map_of (attrib d) ''tag'' = Some ''035'')
       (children record)"

definition xpath_subfield_9 :: "string \<Rightarrow> element \<Rightarrow> element list" where
  \<comment> \<open>\<open>datafield.xpath(''subfield[@code='9' and text()=NS]'')\<close>\<close>
  "xpath_subfield_9 ns datafield =
     filter (\<lambda>s. tag s = ''subfield'' \<and> map_of (attrib s) ''code'' = Some ''9''
                  \<and> ns \<in> set (text_nodes s))
       (children datafield)"

definition find_subfield_a :: "element \<Rightarrow> element option" where
  \<comment> \<open>\<open>datafield.find(''subfield[@code='a']'')\<close>: the first such child, or \<open>None\<close>\<close>
  "find_subfield_a datafield =
     List.find (\<lambda>s. tag s = ''subfield'' \<and> map_of (attrib s) ''code'' = Some ''a'')
       (children datafield)"

text \<open>
  The inner loop over the \<open>035\<close> datafields of one record. Reading \<open>.text\<close> of a
  missing subfield raises \<open>AttributeError\<close>, which the source passes over: the
  variable keeps its value.
\<close>

fun scan_datafields ::
  "string option \<Rightarrow> string option \<Rightarrow> element list \<Rightarrow> string option \<times> string option" where
  "scan_datafields inspire_id cern_id [] = (inspire_id, cern_id)"
| "scan_datafields inspire_id cern_id (datafield # rest) =
     (if xpath_subfield_9 ''INSPIRE'' datafield \<noteq> [] then
        (case find_subfield_a datafield of
           None \<Rightarrow> scan_datafields inspire_id cern_id rest
         | Some a \<Rightarrow> scan_datafields (elem_text a) cern_id rest)
      else if xpath_subfield_9 ''CERN'' datafield \<noteq> [] then
        (case find_subfield_a datafield of
           None \<Rightarrow> scan_datafields inspire_id cern_id rest
         | Some a \<Rightarrow> scan_datafields inspire_id (elem_text a) rest)
      else scan_datafields inspire_id cern_id rest)"

type_synonym dict = "(string \<times> string) list"

definition record_step :: "dict \<Rightarrow> element \<Rightarrow> dict" where
  \<comment> \<open>the body of the loop over the records, lines 143 to 159\<close>
  "record_step authority_ids record =
     (case scan_datafields None None (xpath_datafield_035 record) of
        (inspire_id, cern_id) \<Rightarrow>
          if truthy inspire_id \<and> truthy cern_id
          then AList.update (the cern_id) (the inspire_id) authority_ids
          else authority_ids)"

definition parse_inspire_xml :: "env \<Rightarrow> string option \<Rightarrow> world \<Rightarrow> dict option \<times> world" where
  "parse_inspire_xml E xml_content w =
     (case etree_fromstring E xml_content of
        Inl e \<Rightarrow> (None, write_message ParseFailed w)
      | Inr root \<Rightarrow> (Some (foldl record_step [] (children root)), w))"

section \<open>Reconciler and update emitter: \<open>synchronize\<close>\<close>

definition record_format :: "int \<Rightarrow> string \<Rightarrow> string" where
  \<comment> \<open>\<open>record.format(record_id, inspire_id)\<close>\<close>
  \<open>record_format record_id inspire_id =
     ''<record>'' @
     ''<controlfield tag="001">'' @ str_int record_id @ ''</controlfield>'' @
     ''<datafield tag="035" ind1=" " ind2=" ">'' @
     ''<subfield code="a">AUTHOR|(INSPIRE)'' @ inspire_id @ ''</subfield>'' @
     ''</datafield>'' @
     ''</record>''\<close>

definition lookup_key :: "string option \<Rightarrow> string" where
  \<comment> \<open>\<open>''CERN-{0}''.format(cern_id)\<close>\<close>
  "lookup_key cern_id = ''CERN-'' @ format_opt cern_id"

text \<open>
  The loop of \<open>synchronize\<close> that builds the output string. A missing key raises
  \<open>KeyError\<close>, which the source passes over.
\<close>

fun output_loop :: "(int \<Rightarrow> string list) \<Rightarrow> dict \<Rightarrow> string \<Rightarrow> int list \<Rightarrow> string" where
  "output_loop gf authority_ids output [] = output"
| "output_loop gf authority_ids output (record_id # rest) =
     (let cern_id = get_ccid gf record_id in
      case map_of authority_ids (lookup_key cern_id) of
        None \<Rightarrow> output_loop gf authority_ids output rest
      | Some inspire_id \<Rightarrow>
          output_loop gf authority_ids (output @ record_format record_id inspire_id) rest)"

text \<open>
  The same loop with the arguments of each \<open>record.format\<close> call collected instead of
  the formatted text: one pair per fragment appended to the output, in the order of
  the appends.
\<close>

fun updates_loop ::
  "(int \<Rightarrow> string list) \<Rightarrow> dict \<Rightarrow> (int \<times> string) list \<Rightarrow> int list \<Rightarrow> (int \<times> string) list" where
  "updates_loop gf authority_ids updates [] = updates"
| "updates_loop gf authority_ids updates (record_id # rest) =
     (let cern_id = get_ccid gf record_id in
      case map_of authority_ids (lookup_key cern_id) of
        None \<Rightarrow> updates_loop gf authority_ids updates rest
      | Some inspire_id \<Rightarrow>
          updates_loop gf authority_ids (updates @ [(record_id, inspire_id)]) rest)"

definition submission_args :: "string \<Rightarrow> string list" where
  "submission_args dest_xml =
     [''bibupload'', ''bibauthority-people'', ''--append'', dest_xml, ''-P'', ''-1'',
      ''-N'', ''inspire-authority-ids-synchronizer'']"

definition synchronize :: "env \<Rightarrow> int list \<Rightarrow> dict \<Rightarrow> string \<Rightarrow> world \<Rightarrow> world" where
  "synchronize E record_ids authority_ids dest_xml w =
     (let output = output_loop (get_fieldvalues E) authority_ids [] record_ids in
      if output \<noteq> [] then
        (case file_write E dest_xml output w of
           (Inl e, w1) \<Rightarrow> write_message (WriteFailed dest_xml) w1
         | (Inr u, w1) \<Rightarrow>
             (let w2 = write_message (UpdatesWritten dest_xml) w1;
                  (task_id, w3) = task_low_level_submission (submission_args dest_xml) w2
              in write_message (TaskSubmitted task_id) w3))
      else write_message NoUpdates w)"

section \<open>Orchestrator\<close>

definition get_record_ids :: "env \<Rightarrow> int list" where
  \<comment> \<open>\<open>perform_request_search(cc=''CERN People'')\<close>\<close>
  "get_record_ids E = perform_request_search E"

definition SYNC_LOCAL_INSPIRE_RECORDS_FILE_NAME :: string where
  "SYNC_LOCAL_INSPIRE_RECORDS_FILE_NAME = ''HepNames-records.xml.gz''"

definition SYNC_LOCAL_CDS_RECORDS_UPDATES_FILE_NAME :: string where
  "SYNC_LOCAL_CDS_RECORDS_UPDATES_FILE_NAME = ''cds-records-updates.xml''"

text \<open>
  An exception that escapes \<open>get_inspire_dump\<close> escapes the tasklet: the result is
  \<open>Inl\<close> of it, and \<open>Inr ()\<close> when the tasklet returns.
\<close>

definition bst_inspire_authority_ids_synchronizer ::
  "env \<Rightarrow> string \<Rightarrow> string \<Rightarrow> world \<Rightarrow> (exn + unit) \<times> world" where
  "bst_inspire_authority_ids_synchronizer E url tmp_dir w =
     (case get_inspire_dump E url (path_join tmp_dir SYNC_LOCAL_INSPIRE_RECORDS_FILE_NAME) w of
        (Inl e, w1) \<Rightarrow> (Inl e, w1)
      | (Inr xml_content, w1) \<Rightarrow>
          (let (authority_ids, w2) = parse_inspire_xml E xml_content w1
           in (Inr (),
               case authority_ids of
                 None \<Rightarrow> w2
               | Some d \<Rightarrow>
                   if d = [] then w2
                   else
                     (let record_ids = get_record_ids E;
                          w3 = write_message (IdsRequested (length record_ids)) w2
                      in if record_ids \<noteq> []
                         then synchronize E record_ids d
                                (path_join tmp_dir SYNC_LOCAL_CDS_RECORDS_UPDATES_FILE_NAME) w3
                         else w3))))"

section \<open>Notions used to state the properties\<close>

subsection \<open>Observing a run\<close>

definition new_events :: "world \<Rightarrow> world \<Rightarrow> event list" where
  \<comment> \<open>the events that lead from world \<open>w\<close> to the later world \<open>w'\<close>\<close>
  "new_events w w' = drop (length (trace w)) (trace w')"

fun payloads :: "event list \<Rightarrow> string list" where
  \<comment> \<open>the payloads handed to the file system, in order\<close>
  "payloads [] = []"
| "payloads (FileWrite path content # es) = content # payloads es"
| "payloads (e # es) = payloads es"

definition run_updates :: "env \<Rightarrow> string \<Rightarrow> string \<Rightarrow> world \<Rightarrow> (int \<times> string) list" where
  \<comment> \<open>the reconciled updates of a run of the tasklet started in world \<open>w\<close>\<close>
  "run_updates E url tmp_dir w =
     (case get_inspire_dump E url (path_join tmp_dir SYNC_LOCAL_INSPIRE_RECORDS_FILE_NAME) w of
        (Inl e, w1) \<Rightarrow> []
      | (Inr xml_content, w1) \<Rightarrow>
          (let (authority_ids, w2) = parse_inspire_xml E xml_content w1
           in case authority_ids of
                None \<Rightarrow> []
              | Some d \<Rightarrow>
                  if d = [] then []
                  else updates_loop (get_fieldvalues E) d [] (get_record_ids E)))"

definition contributes :: "(int \<Rightarrow> string list) \<Rightarrow> dict \<Rightarrow> int \<Rightarrow> bool" where
  \<comment> \<open>the lookup of \<open>synchronize\<close> succeeds for this record id\<close>
  "contributes gf authority_ids record_id =
     (map_of authority_ids (lookup_key (get_ccid gf record_id)) \<noteq> None)"

subsection \<open>What a dump record carries\<close>

text \<open>
  A datafield is read as an external (INSPIRE) identifier field when it has a subfield
  \<open>9\<close> with text \<open>INSPIRE\<close> and a subfield \<open>a\<close>; as an internal (CERN) identifier
  field when it is not tagged \<open>INSPIRE\<close>, has a subfield \<open>9\<close> with text \<open>CERN\<close> and a
  subfield \<open>a\<close>. The identifier is the text of the first subfield \<open>a\<close>. The identifier
  a record carries for a namespace is the one of the last datafield \<open>035\<close> read for it.
\<close>

definition reads_inspire :: "element \<Rightarrow> bool" where
  "reads_inspire d = (xpath_subfield_9 ''INSPIRE'' d \<noteq> [] \<and> find_subfield_a d \<noteq> None)"

definition reads_cern :: "element \<Rightarrow> bool" where
  "reads_cern d =
     (xpath_subfield_9 ''INSPIRE'' d = [] \<and> xpath_subfield_9 ''CERN'' d \<noteq> []
      \<and> find_subfield_a d \<noteq> None)"

definition subfield_a_text :: "element \<Rightarrow> string option" where
  "subfield_a_text d = (case find_subfield_a d of None \<Rightarrow> None | Some a \<Rightarrow> elem_text a)"

definition last_text ::
  "(element \<Rightarrow> bool) \<Rightarrow> string option \<Rightarrow> element list \<Rightarrow> string option" where
  "last_text P init ds =
     (if filter P ds = [] then init else subfield_a_text (last (filter P ds)))"

definition external_id :: "element \<Rightarrow> string option" where
  "external_id record = last_text reads_inspire None (xpath_datafield_035 record)"

definition internal_id :: "element \<Rightarrow> string option" where
  "internal_id record = last_text reads_cern None (xpath_datafield_035 record)"

definition qualifies :: "element \<Rightarrow> bool" where
  \<comment> \<open>the record carries both identifiers, neither of them empty\<close>
  "qualifies record = (truthy (external_id record) \<and> truthy (internal_id record))"

definition yields :: "string \<Rightarrow> element \<Rightarrow> bool" where
  \<comment> \<open>the record qualifies and its internal identifier is \<open>k\<close>\<close>
  "yields k record = (qualifies record \<and> internal_id record = Some k)"

subsection \<open>A small world to run the tasklet in\<close>

definition subfield :: "string \<Rightarrow> string \<Rightarrow> element" where
  "subfield code txt = Element ''subfield'' [(''code'', code)] (Some txt) [] None"

definition datafield_035 :: "element list \<Rightarrow> element" where
  "datafield_035 subfields =
     Element ''datafield'' [(''tag'', ''035''), (''ind1'', '' ''), (''ind2'', '' '')] None
       subfields None"

definition ex_root :: element where
  \<comment> \<open>three records: one with an INSPIRE id only; one with a CERN id and two INSPIRE
      ids; the second record of the docstring of \<open>parse_inspire_xml\<close>\<close>
  "ex_root =
     Element ''collection'' [] None
       [Element ''record'' [] None
          [datafield_035 [subfield ''9'' ''INSPIRE'', subfield ''a'' ''INSPIRE-00440376'']]
          None,
        Element ''record'' [] None
          [datafield_035 [subfield ''9'' ''INSPIRE'', subfield ''a'' ''INSPIRE-00000001''],
           datafield_035 [subfield ''9'' ''CERN'', subfield ''a'' ''CERN-389900''],
           datafield_035 [subfield ''9'' ''INSPIRE'', subfield ''a'' ''INSPIRE-00000002'']]
          None,
        Element ''record'' [] None
          [datafield_035 [subfield ''9'' ''CERN'', subfield ''a'' ''CERN-389900''],
           datafield_035 [subfield ''9'' ''INSPIRE'', subfield ''a'' ''INSPIRE-00146525'']]
          None]
       None"

definition ex_root_none :: element where
  \<comment> \<open>a dump whose only record maps the internal id \<open>CERN-None\<close>\<close>
  "ex_root_none =
     Element ''collection'' [] None
       [Element ''record'' [] None
          [datafield_035 [subfield ''9'' ''CERN'', subfield ''a'' ''CERN-None''],
           datafield_035 [subfield ''9'' ''INSPIRE'', subfield ''a'' ''INSPIRE-00000001'']]
          None]
       None"

definition ex_url :: string where
  "ex_url = ''http://inspirehep.net/dumps/HepNames-records.xml.gz''"

definition ex_fieldvalues :: "int \<Rightarrow> string list" where
  \<comment> \<open>the two records of the docstring of \<open>get_ccid\<close>\<close>
  "ex_fieldvalues record_id =
     (if record_id = 2108556 then [''AUTHOR|(SzGeCERN)389900'']
      else if record_id = 2148049
        then [''AUTHOR|(SzGeCERN)646446'', ''AUTHOR|(INSPIRE)INSPIRE-00198527'']
      else [])"

definition ex_env :: env where
  \<comment> \<open>the dump is served at \<open>ex_url\<close>, no other host answers; its text, abbreviated here, parses to
      \<open>ex_root\<close>; \<open><record></record>\<close> parses to a record without children; the parser
      rejects every other text; the directory \<open>/tmp/\<close> cannot be written as a file,
      nor can \<open>/ro/cds-records-updates.xml\<close>\<close>
  "ex_env =
     \<lparr>remote = (\<lambda>u. if u = ex_url then Inr ''gz:dump'' else Inl IOError),
      unwritable = (\<lambda>p. p = ''/tmp/'' \<or> p = ''/ro/cds-records-updates.xml''),
      undeletable = (\<lambda>p. False),
      gunzip =
        (\<lambda>b. if b = ''gz:dump'' then Inr ''<collection>...</collection>'' else Inl IOError),
      xml_parser =
        (\<lambda>s. if s = ''<collection>...</collection>'' then Some ex_root
             else if s = ''<record></record>'' then Some (Element ''record'' [] None [] None)
             else None),
      perform_request_search = [2108556, 2148049],
      get_fieldvalues = ex_fieldvalues\<rparr>"

definition w0 :: world where
  "w0 = \<lparr>files = Map.empty, tasks = [], trace = []\<rparr>"

subsection \<open>The events of each stage, as functions of the environment\<close>

definition removal_events :: "env \<Rightarrow> string \<Rightarrow> event list" where
  "removal_events E dest =
     OsRemove dest # (if undeletable E dest then [Message (RemoveFailed dest)] else [])"

definition dump_content :: "env \<Rightarrow> string \<Rightarrow> string \<Rightarrow> exn + string option" where
  "dump_content E src dest =
     (case remote E src of
        Inl e \<Rightarrow> if e = IOError then Inr None else Inl e
      | Inr body \<Rightarrow>
          if unwritable E dest then Inr None
          else (case gunzip E body of
                  Inl e \<Rightarrow> if e = IOError then Inr None else Inl e
                | Inr content \<Rightarrow> Inr (Some content)))"

definition dump_events :: "env \<Rightarrow> string \<Rightarrow> string \<Rightarrow> event list" where
  "dump_events E src dest =
     (case remote E src of
        Inl e \<Rightarrow>
          Urlretrieve src dest # (if e = IOError then [Message (CopyFailed src dest)] else [])
      | Inr body \<Rightarrow>
          if unwritable E dest then [Urlretrieve src dest, Message (CopyFailed src dest)]
          else (case gunzip E body of
                  Inl e \<Rightarrow>
                    if e = IOError
                    then [Urlretrieve src dest, GzipRead dest, Message (UnzipFailed dest)]
                         @ removal_events E dest
                    else [Urlretrieve src dest, GzipRead dest]
                | Inr content \<Rightarrow>
                    [Urlretrieve src dest, GzipRead dest] @ removal_events E dest))"

definition parse_result :: "env \<Rightarrow> string option \<Rightarrow> dict option" where
  "parse_result E xml_content =
     (case etree_fromstring E xml_content of
        Inl e \<Rightarrow> None
      | Inr root \<Rightarrow> Some (foldl record_step [] (children root)))"

definition sync_events :: "env \<Rightarrow> int list \<Rightarrow> dict \<Rightarrow> string \<Rightarrow> nat \<Rightarrow> event list" where
  \<comment> \<open>\<open>n\<close> is the number of tasks the scheduler has queued so far\<close>
  "sync_events E rs d dest n =
     (let output = output_loop (get_fieldvalues E) d [] rs in
      if output = [] then [Message NoUpdates]
      else if unwritable E dest then [FileWrite dest output, Message (WriteFailed dest)]
      else [FileWrite dest output, Message (UpdatesWritten dest),
            Submission (submission_args dest), Message (TaskSubmitted (Suc n))])"

definition tasklet_events :: "env \<Rightarrow> string \<Rightarrow> string \<Rightarrow> nat \<Rightarrow> event list" where
  "tasklet_events E url tmp_dir n =
     (let dest = path_join tmp_dir SYNC_LOCAL_INSPIRE_RECORDS_FILE_NAME in
      dump_events E url dest @
      (case dump_content E url dest of
         Inl e \<Rightarrow> []
       | Inr xml_content \<Rightarrow>
           (case parse_result E xml_content of
              None \<Rightarrow> [Message ParseFailed]
            | Some d \<Rightarrow>
                if d = [] then []
                else Message (IdsRequested (length (get_record_ids E))) #
                     (if get_record_ids E \<noteq> []
                      then sync_events E (get_record_ids E) d
                             (path_join tmp_dir SYNC_LOCAL_CDS_RECORDS_UPDATES_FILE_NAME) n
                      else []))))"

section \<open>Properties of the Python helpers\<close>

lemmas mark_defs = startswith_def INSPIRE_MARK_def CCID_MARK_def

lemmas io_defs = emit_def write_message_def urlretrieve_def gzip_read_def os_remove_def
  file_write_def task_low_level_submission_def

lemma partition_str_prefix:
  "prefix sep s \<Longrightarrow> s \<noteq> [] \<Longrightarrow> partition_str s sep = ([], sep, drop (length sep) s)"
  by (cases s) simp_all

lemma str_int_2108556: "str_int 2108556 = ''2108556''"
  by (simp add: str_int_def str_nat.simps)

lemma str_int_2148049: "str_int 2148049 = ''2148049''"
  by (simp add: str_int_def str_nat.simps)

section \<open>Properties of \<open>get_ccid\<close>\<close>

lemma ccid_loop_external_first:
  "\<forall>v \<in> set pre. \<not> startswith v CCID_MARK \<Longrightarrow> startswith e INSPIRE_MARK \<Longrightarrow>
   ccid_loop None (pre @ e # post) = None"
  by (induction pre) auto

lemma ccid_loop_break:
  "\<forall>u \<in> set mid. \<not> startswith u CCID_MARK \<Longrightarrow> startswith e INSPIRE_MARK \<Longrightarrow>
   ccid_loop acc (mid @ e # post) = acc"
  by (induction mid) auto

text \<open>
  What the loop does when an internal marker is followed by an external one: \<open>break\<close>
  leaves the captured key in place.
\<close>

lemma ccid_loop_keeps_key:
  assumes "\<not> startswith v INSPIRE_MARK" and "startswith v CCID_MARK"
    and "\<forall>u \<in> set mid. \<not> startswith u CCID_MARK"
    and "startswith e INSPIRE_MARK"
  shows "ccid_loop acc (v # mid @ e # post) = Some (drop (length CCID_MARK) v)"
proof -
  from assms(2) have "v \<noteq> []"
    by (auto simp: mark_defs)
  with assms(2) have "partition_str v CCID_MARK = ([], CCID_MARK, drop (length CCID_MARK) v)"
    by (simp add: partition_str_prefix startswith_def)
  with assms show ?thesis
    by (simp add: ccid_loop_break)
qed

text \<open>
  C1. The claim: when an internal-id value has been captured and an external-id value
  comes later in the list, \<open>get_ccid\<close> returns \<open>None\<close>. The docstring of \<open>get_ccid\<close>
  says the same with its Example 2. On the field values of that example the code
  returns the captured key \<open>646446\<close>: \<open>break\<close> does not reset \<open>cern_id\<close>.
\<close>

theorem get_ccid_keeps_key_before_external_marker:
  "get_ccid (\<lambda>record_id. [''AUTHOR|(SzGeCERN)646446'', ''AUTHOR|(INSPIRE)INSPIRE-00198527''])
     2148049 = Some ''646446''"
  by (simp add: get_ccid_def mark_defs)

text \<open>
  C6. When a value beginning with the external-id marker comes before any value
  beginning with the internal-id marker, \<open>get_ccid\<close> returns \<open>None\<close>.
\<close>

theorem get_ccid_external_marker_first:
  assumes "gf record_id = pre @ e # post"
    and "\<forall>v \<in> set pre. \<not> startswith v CCID_MARK"
    and "startswith e INSPIRE_MARK"
  shows "get_ccid gf record_id = None"
  using assms by (simp add: get_ccid_def ccid_loop_external_first)

theorem get_ccid_external_marker_first_witness:
  "get_ccid
     (\<lambda>record_id. [''NOTE'', ''AUTHOR|(INSPIRE)INSPIRE-00198527'', ''AUTHOR|(SzGeCERN)646446''])
     2148049 = None"
  using get_ccid_external_marker_first
    [of "\<lambda>record_id. [''NOTE'', ''AUTHOR|(INSPIRE)INSPIRE-00198527'', ''AUTHOR|(SzGeCERN)646446'']"
        2148049 "[''NOTE'']" "''AUTHOR|(INSPIRE)INSPIRE-00198527''"
        "[''AUTHOR|(SzGeCERN)646446'']"]
  by (simp add: mark_defs)

section \<open>Properties of the loop of \<open>synchronize\<close>\<close>

lemma updates_loop_acc:
  "updates_loop gf d acc rs = acc @ updates_loop gf d [] rs"
proof (induction rs arbitrary: acc)
  case Nil
  show ?case by simp
next
  case (Cons r rs)
  show ?case
  proof (cases "map_of d (lookup_key (get_ccid gf r))")
    case None
    then show ?thesis
      using Cons.IH [of acc] by simp
  next
    case (Some i)
    then show ?thesis
      using Cons.IH [of "acc @ [(r, i)]"] Cons.IH [of "[(r, i)]"] by simp
  qed
qed

lemma output_loop_acc:
  "output_loop gf d acc rs = acc @ output_loop gf d [] rs"
proof (induction rs arbitrary: acc)
  case Nil
  show ?case by simp
next
  case (Cons r rs)
  show ?case
  proof (cases "map_of d (lookup_key (get_ccid gf r))")
    case None
    then show ?thesis
      using Cons.IH [of acc] by simp
  next
    case (Some i)
    then show ?thesis
      using Cons.IH [of "acc @ record_format r i"] Cons.IH [of "record_format r i"] by simp
  qed
qed

lemma output_loop_updates:
  "output_loop gf d [] rs =
     concat (map (\<lambda>(r, i). record_format r i) (updates_loop gf d [] rs))"
proof (induction rs)
  case Nil
  show ?case by simp
next
  case (Cons r rs)
  show ?case
  proof (cases "map_of d (lookup_key (get_ccid gf r))")
    case None
    then show ?thesis
      using Cons.IH by simp
  next
    case (Some i)
    then show ?thesis
      using Cons.IH output_loop_acc [of gf d "record_format r i" rs]
        updates_loop_acc [of gf d "[(r, i)]" rs]
      by simp
  qed
qed

lemma updates_loop_ids:
  "map fst (updates_loop gf d [] rs) = filter (contributes gf d) rs"
proof (induction rs)
  case Nil
  show ?case by simp
next
  case (Cons r rs)
  show ?case
  proof (cases "map_of d (lookup_key (get_ccid gf r))")
    case None
    then show ?thesis
      using Cons.IH by (simp add: contributes_def)
  next
    case (Some i)
    then show ?thesis
      using Cons.IH updates_loop_acc [of gf d "[(r, i)]" rs]
      by (simp add: contributes_def)
  qed
qed

lemma updates_loop_values:
  "(r, i) \<in> set (updates_loop gf d [] rs) \<Longrightarrow>
   r \<in> set rs \<and> map_of d (lookup_key (get_ccid gf r)) = Some i"
proof (induction rs)
  case Nil
  then show ?case by simp
next
  case (Cons a rs)
  show ?case
  proof (cases "map_of d (lookup_key (get_ccid gf a))")
    case None
    then show ?thesis
      using Cons by simp
  next
    case (Some j)
    then show ?thesis
      using Cons updates_loop_acc [of gf d "[(a, j)]" rs] by auto
  qed
qed

lemma record_format_nonempty: "record_format r i \<noteq> []"
  by (simp add: record_format_def)

lemma output_empty_iff:
  "output_loop gf d [] rs = [] \<longleftrightarrow> updates_loop gf d [] rs = []"
proof (cases "updates_loop gf d [] rs")
  case Nil
  then show ?thesis
    by (simp add: output_loop_updates)
next
  case (Cons u us)
  then show ?thesis
    by (cases u) (simp add: output_loop_updates record_format_nonempty)
qed

lemma count_list_filter_le: "count_list (filter P xs) x \<le> count_list xs x"
  by (induction xs) auto

text \<open>
  A record without a key contributes only when the mapping has the key \<open>CERN-None\<close>.
\<close>

lemma absent_key_needs_CERN_None:
  "get_ccid gf r = None \<Longrightarrow> map_of d ''CERN-None'' = None \<Longrightarrow> \<not> contributes gf d r"
  by (simp add: contributes_def lookup_key_def format_opt_def)

lemma record_step_ex_root_none:
  "foldl record_step [] (children ex_root_none) = [(''CERN-None'', ''INSPIRE-00000001'')]"
  by (simp add: ex_root_none_def record_step_def xpath_datafield_035_def xpath_subfield_9_def
      find_subfield_a_def text_nodes_def datafield_035_def subfield_def truthy_def
      List.map_filter_def)

text \<open>
  C2. The claim: a candidate for which \<open>get_ccid\<close> returned \<open>None\<close> never contributes
  a fragment, so there are at most as many fragments as candidates with a key. The
  code formats \<open>None\<close> into the lookup key \<open>CERN-None\<close> and relies on the lookup to
  fail. A dump that maps the internal id \<open>CERN-None\<close> yields a mapping with that key,
  and then record 2148049, which already has an INSPIRE id and therefore no key,
  gets a fragment: one fragment, no candidate with a key.
\<close>

theorem synchronize_emits_fragment_for_absent_key:
  "foldl record_step [] (children ex_root_none) = [(''CERN-None'', ''INSPIRE-00000001'')] \<and>
   get_ccid (\<lambda>record_id. [''AUTHOR|(INSPIRE)INSPIRE-00198527'']) 2148049 = None \<and>
   updates_loop (\<lambda>record_id. [''AUTHOR|(INSPIRE)INSPIRE-00198527''])
     [(''CERN-None'', ''INSPIRE-00000001'')] [] [2148049] = [(2148049, ''INSPIRE-00000001'')] \<and>
   output_loop (\<lambda>record_id. [''AUTHOR|(INSPIRE)INSPIRE-00198527''])
     [(''CERN-None'', ''INSPIRE-00000001'')] [] [2148049]
     = record_format 2148049 ''INSPIRE-00000001''"
  by (simp add: record_step_ex_root_none get_ccid_def mark_defs lookup_key_def format_opt_def)

text \<open>
  C7. Every fragment of the payload is formatted from a record id of the input list;
  the record ids of the fragments are a subsequence of the input list (same relative
  order); every occurrence of a record id in the input contributes at most one
  fragment, so with distinct input ids (as the record store returns them) each
  record id has at most one fragment.
\<close>

theorem synchronize_fragments_follow_input:
  "output_loop gf d [] rs =
     concat (map (\<lambda>(r, i). record_format r i) (updates_loop gf d [] rs)) \<and>
   map fst (updates_loop gf d [] rs) = filter (contributes gf d) rs \<and>
   set (map fst (updates_loop gf d [] rs)) \<subseteq> set rs \<and>
   subseq (map fst (updates_loop gf d [] rs)) rs \<and>
   (\<forall>r. count_list (map fst (updates_loop gf d [] rs)) r \<le> count_list rs r) \<and>
   (distinct rs \<longrightarrow> distinct (map fst (updates_loop gf d [] rs)))"
  by (simp add: output_loop_updates [symmetric] updates_loop_ids count_list_filter_le)

theorem synchronize_fragments_follow_input_witness:
  "distinct [2108556, 2148049 :: int] \<and>
   map fst (updates_loop ex_fieldvalues [(''CERN-389900'', ''INSPIRE-00146525'')] []
              [2108556, 2148049]) = [2108556] \<and>
   distinct (map fst (updates_loop ex_fieldvalues [(''CERN-389900'', ''INSPIRE-00146525'')] []
              [2108556, 2148049]))"
  using synchronize_fragments_follow_input
    [of ex_fieldvalues "[(''CERN-389900'', ''INSPIRE-00146525'')]" "[2108556, 2148049]"]
  by (simp add: contributes_def ex_fieldvalues_def get_ccid_def mark_defs lookup_key_def
      format_opt_def)


section \<open>Properties of the dump fetcher\<close>

lemma new_events_append [simp]: "trace w' = trace w @ es \<Longrightarrow> new_events w w' = es"
  by (simp add: new_events_def)

lemma get_inspire_dump_result:
  "fst (get_inspire_dump E src dest w) = dump_content E src dest"
  by (simp add: get_inspire_dump_def dump_content_def io_defs Let_def split: sum.split)

lemma get_inspire_dump_trace:
  "trace (snd (get_inspire_dump E src dest w)) = trace w @ dump_events E src dest"
  by (simp add: get_inspire_dump_def dump_events_def removal_events_def io_defs Let_def
      split: sum.split)

lemma get_inspire_dump_tasks:
  "tasks (snd (get_inspire_dump E src dest w)) = tasks w"
  by (auto simp add: get_inspire_dump_def io_defs Let_def split: sum.split)

lemma dump_content_undeletable:
  "dump_content (E\<lparr>undeletable := u\<rparr>) src dest = dump_content E src dest"
  by (simp add: dump_content_def split: sum.split)

text \<open>
  An exception of the read other than \<open>IOError\<close> (\<open>zlib.error\<close> for a corrupt deflate
  stream) is not caught: it escapes \<open>get_inspire_dump\<close> right after the read, before
  \<open>os.remove\<close>.
\<close>

lemma get_inspire_dump_read_exception_escapes:
  assumes "remote E src = Inr body" and "\<not> unwritable E dest"
    and "gunzip E body = Inl e" and "e \<noteq> IOError"
  shows "fst (get_inspire_dump E src dest w) = Inl e"
    and "new_events w (snd (get_inspire_dump E src dest w)) = [Urlretrieve src dest, GzipRead dest]"
  using assms
  by (simp_all add: get_inspire_dump_result get_inspire_dump_trace dump_content_def
      dump_events_def)

lemma get_inspire_dump_zlib_error:
  "fst (get_inspire_dump (ex_env\<lparr>gunzip := \<lambda>b. Inl ZlibError\<rparr>) ex_url ''/tmp/d.gz'' w0)
     = Inl ZlibError \<and>
   new_events w0 (snd (get_inspire_dump (ex_env\<lparr>gunzip := \<lambda>b. Inl ZlibError\<rparr>) ex_url
                         ''/tmp/d.gz'' w0))
     = [Urlretrieve ex_url ''/tmp/d.gz'', GzipRead ''/tmp/d.gz'']"
  by (simp add: get_inspire_dump_result get_inspire_dump_trace dump_content_def
      dump_events_def ex_env_def)

text \<open>
  C3, as the spec states it: on every exit path, the transport failure included, a
  deletion of \<open>dest_gz_tmp\<close> is attempted. When \<open>urlretrieve\<close> raises \<open>IOError\<close>, the
  handler returns at once: the only events are the call and the report.
\<close>

theorem get_inspire_dump_copy_failure_skips_removal:
  "fst (get_inspire_dump ex_env ''http://offline.invalid/HepNames-records.xml.gz''
          ''/tmp/HepNames-records.xml.gz'' w0) = Inr None \<and>
   OsRemove ''/tmp/HepNames-records.xml.gz'' \<notin>
     set (trace (snd (get_inspire_dump ex_env
            ''http://offline.invalid/HepNames-records.xml.gz''
            ''/tmp/HepNames-records.xml.gz'' w0)))"
  by (simp add: get_inspire_dump_result get_inspire_dump_trace dump_content_def dump_events_def
      ex_env_def ex_url_def w0_def)

text \<open>
  C3, amended. When the copy fails with \<open>IOError\<close>, \<open>get_inspire_dump\<close> returns \<open>None\<close>
  after the report, with no deletion attempted. When the copy succeeded and the read
  either raises \<open>IOError\<close> or succeeds, exactly one deletion of \<open>dest_gz_tmp\<close> is
  attempted, after the read attempt and before the function returns; the function
  returns \<open>None\<close> in the first case and the content in the second. A failed deletion
  is reported and does not change the outcome.
\<close>

theorem get_inspire_dump_removal_after_copy:
  "(remote E src = Inl IOError \<or> (remote E src = Inr body \<and> unwritable E dest) \<longrightarrow>
      fst (get_inspire_dump E src dest w) = Inr None \<and>
      new_events w (snd (get_inspire_dump E src dest w))
        = [Urlretrieve src dest, Message (CopyFailed src dest)]) \<and>
   (remote E src = Inr body \<and> \<not> unwritable E dest \<and>
    (gunzip E body = Inl IOError \<or> gunzip E body = Inr content) \<longrightarrow>
      fst (get_inspire_dump E src dest w)
        = Inr (if gunzip E body = Inl IOError then None else Some content) \<and>
      new_events w (snd (get_inspire_dump E src dest w))
        = [Urlretrieve src dest, GzipRead dest]
          @ (if gunzip E body = Inl IOError then [Message (UnzipFailed dest)] else [])
          @ [OsRemove dest]
          @ (if undeletable E dest then [Message (RemoveFailed dest)] else [])) \<and>
   fst (get_inspire_dump (E\<lparr>undeletable := u\<rparr>) src dest w)
     = fst (get_inspire_dump E src dest w)"
proof (intro conjI impI)
  assume "remote E src = Inl IOError \<or> (remote E src = Inr body \<and> unwritable E dest)"
  then show "fst (get_inspire_dump E src dest w) = Inr None"
    by (auto simp add: get_inspire_dump_result dump_content_def)
next
  assume "remote E src = Inl IOError \<or> (remote E src = Inr body \<and> unwritable E dest)"
  then have "dump_events E src dest = [Urlretrieve src dest, Message (CopyFailed src dest)]"
    by (auto simp add: dump_events_def)
  then show "new_events w (snd (get_inspire_dump E src dest w))
      = [Urlretrieve src dest, Message (CopyFailed src dest)]"
    by (simp add: get_inspire_dump_trace)
next
  assume "remote E src = Inr body \<and> \<not> unwritable E dest \<and>
    (gunzip E body = Inl IOError \<or> gunzip E body = Inr content)"
  then show "fst (get_inspire_dump E src dest w)
      = Inr (if gunzip E body = Inl IOError then None else Some content)"
    by (auto simp add: get_inspire_dump_result dump_content_def)
next
  assume "remote E src = Inr body \<and> \<not> unwritable E dest \<and>
    (gunzip E body = Inl IOError \<or> gunzip E body = Inr content)"
  then have "dump_events E src dest
      = [Urlretrieve src dest, GzipRead dest]
        @ (if gunzip E body = Inl IOError then [Message (UnzipFailed dest)] else [])
        @ [OsRemove dest]
        @ (if undeletable E dest then [Message (RemoveFailed dest)] else [])"
    by (auto simp add: dump_events_def removal_events_def)
  then show "new_events w (snd (get_inspire_dump E src dest w))
      = [Urlretrieve src dest, GzipRead dest]
        @ (if gunzip E body = Inl IOError then [Message (UnzipFailed dest)] else [])
        @ [OsRemove dest]
        @ (if undeletable E dest then [Message (RemoveFailed dest)] else [])"
    by (simp only: get_inspire_dump_trace new_events_append)
next
  show "fst (get_inspire_dump (E\<lparr>undeletable := u\<rparr>) src dest w)
      = fst (get_inspire_dump E src dest w)"
    by (simp add: get_inspire_dump_result dump_content_undeletable)
qed

theorem get_inspire_dump_removal_after_copy_witness:
  "remote ex_env ''http://offline/'' = Inl IOError \<and>
   fst (get_inspire_dump ex_env ''http://offline/'' ''/tmp/d.gz'' w0) = Inr None \<and>
   new_events w0 (snd (get_inspire_dump ex_env ''http://offline/'' ''/tmp/d.gz'' w0))
     = [Urlretrieve ''http://offline/'' ''/tmp/d.gz'',
        Message (CopyFailed ''http://offline/'' ''/tmp/d.gz'')] \<and>
   remote (ex_env\<lparr>gunzip := \<lambda>b. Inl IOError, undeletable := \<lambda>p. True\<rparr>) ex_url
     = Inr ''gz:dump'' \<and>
   \<not> unwritable (ex_env\<lparr>gunzip := \<lambda>b. Inl IOError, undeletable := \<lambda>p. True\<rparr>) ''/tmp/d.gz'' \<and>
   gunzip (ex_env\<lparr>gunzip := \<lambda>b. Inl IOError, undeletable := \<lambda>p. True\<rparr>) ''gz:dump''
     = Inl IOError \<and>
   fst (get_inspire_dump (ex_env\<lparr>gunzip := \<lambda>b. Inl IOError, undeletable := \<lambda>p. True\<rparr>)
          ex_url ''/tmp/d.gz'' w0) = Inr None \<and>
   new_events w0
     (snd (get_inspire_dump (ex_env\<lparr>gunzip := \<lambda>b. Inl IOError, undeletable := \<lambda>p. True\<rparr>)
             ex_url ''/tmp/d.gz'' w0))
     = [Urlretrieve ex_url ''/tmp/d.gz'', GzipRead ''/tmp/d.gz'',
        Message (UnzipFailed ''/tmp/d.gz''), OsRemove ''/tmp/d.gz'',
        Message (RemoveFailed ''/tmp/d.gz'')] \<and>
   gunzip ex_env ''gz:dump'' = Inr ''<collection>...</collection>'' \<and>
   fst (get_inspire_dump ex_env ex_url ''/tmp/d.gz'' w0)
     = Inr (Some ''<collection>...</collection>'') \<and>
   new_events w0 (snd (get_inspire_dump ex_env ex_url ''/tmp/d.gz'' w0))
     = [Urlretrieve ex_url ''/tmp/d.gz'', GzipRead ''/tmp/d.gz'', OsRemove ''/tmp/d.gz''] \<and>
   fst (get_inspire_dump (ex_env\<lparr>undeletable := \<lambda>p. True\<rparr>) ex_url ''/tmp/d.gz'' w0)
     = Inr (Some ''<collection>...</collection>'')"
  using get_inspire_dump_removal_after_copy
    [where E = ex_env and src = "''http://offline/''" and dest = "''/tmp/d.gz''" and w = w0
       and body = "''gz:dump''" and content = "''<collection>...</collection>''"
       and u = "\<lambda>p. True"]
    get_inspire_dump_removal_after_copy
    [where E = "ex_env\<lparr>gunzip := \<lambda>b. Inl IOError, undeletable := \<lambda>p. True\<rparr>" and src = ex_url
       and dest = "''/tmp/d.gz''" and w = w0 and body = "''gz:dump''"
       and content = "''<collection>...</collection>''" and u = "\<lambda>p. True"]
    get_inspire_dump_removal_after_copy
    [where E = ex_env and src = ex_url and dest = "''/tmp/d.gz''" and w = w0
       and body = "''gz:dump''" and content = "''<collection>...</collection>''"
       and u = "\<lambda>p. True"]
  by (simp add: ex_env_def ex_url_def)

section \<open>Properties of the update emitter\<close>

lemma synchronize_trace:
  "trace (synchronize E rs d dest w) = trace w @ sync_events E rs d dest (length (tasks w))"
  by (simp add: synchronize_def sync_events_def io_defs Let_def)

lemma synchronize_tasks:
  "tasks (synchronize E rs d dest w) =
     tasks w @ (if output_loop (get_fieldvalues E) d [] rs = [] \<or> unwritable E dest then []
                else [submission_args dest])"
  by (simp add: synchronize_def io_defs Let_def)

lemma synchronize_files_noop:
  "output_loop (get_fieldvalues E) d [] rs = [] \<Longrightarrow> files (synchronize E rs d dest w) = files w"
  by (simp add: synchronize_def io_defs Let_def)

text \<open>
  C8. With an empty update set \<open>synchronize\<close> only reports that there are no updates:
  no file is written and nothing is submitted. When the write of the payload fails,
  the failure is reported and the run ends with nothing submitted.
\<close>

theorem synchronize_noop_and_write_failure:
  "(updates_loop (get_fieldvalues E) d [] rs = [] \<longrightarrow>
      new_events w (synchronize E rs d dest w) = [Message NoUpdates] \<and>
      files (synchronize E rs d dest w) = files w \<and>
      tasks (synchronize E rs d dest w) = tasks w) \<and>
   (updates_loop (get_fieldvalues E) d [] rs \<noteq> [] \<and> unwritable E dest \<longrightarrow>
      new_events w (synchronize E rs d dest w)
        = [FileWrite dest (output_loop (get_fieldvalues E) d [] rs), Message (WriteFailed dest)] \<and>
      tasks (synchronize E rs d dest w) = tasks w)"
  by (simp add: synchronize_trace synchronize_tasks synchronize_files_noop sync_events_def
      output_empty_iff)

theorem synchronize_noop_and_write_failure_witness:
  "updates_loop (get_fieldvalues ex_env) [(''CERN-1'', ''INSPIRE-1'')] [] [2108556, 2148049] = [] \<and>
   new_events w0 (synchronize ex_env [2108556, 2148049] [(''CERN-1'', ''INSPIRE-1'')]
                    ''/tmp/cds-records-updates.xml'' w0) = [Message NoUpdates] \<and>
   updates_loop (get_fieldvalues ex_env) [(''CERN-389900'', ''INSPIRE-00146525'')] []
     [2108556, 2148049] \<noteq> [] \<and>
   unwritable ex_env ''/ro/cds-records-updates.xml'' \<and>
   new_events w0 (synchronize ex_env [2108556, 2148049] [(''CERN-389900'', ''INSPIRE-00146525'')]
                    ''/ro/cds-records-updates.xml'' w0)
     = [FileWrite ''/ro/cds-records-updates.xml'' (record_format 2108556 ''INSPIRE-00146525''),
        Message (WriteFailed ''/ro/cds-records-updates.xml'')] \<and>
   tasks (synchronize ex_env [2108556, 2148049] [(''CERN-389900'', ''INSPIRE-00146525'')]
            ''/ro/cds-records-updates.xml'' w0) = []"
  using synchronize_noop_and_write_failure
    [where E = ex_env and d = "[(''CERN-1'', ''INSPIRE-1'')]" and rs = "[2108556, 2148049]"
       and w = w0 and dest = "''/tmp/cds-records-updates.xml''"]
    synchronize_noop_and_write_failure
    [where E = ex_env and d = "[(''CERN-389900'', ''INSPIRE-00146525'')]"
       and rs = "[2108556, 2148049]" and w = w0 and dest = "''/ro/cds-records-updates.xml''"]
  by (simp add: ex_env_def ex_fieldvalues_def get_ccid_def mark_defs lookup_key_def
      format_opt_def w0_def)

section \<open>Properties of the whole run\<close>

lemma parse_inspire_xml_result:
  "fst (parse_inspire_xml E c w) = parse_result E c"
  by (simp add: parse_inspire_xml_def parse_result_def split: sum.split)

lemma parse_inspire_xml_trace:
  "trace (snd (parse_inspire_xml E c w)) =
     trace w @ (if parse_result E c = None then [Message ParseFailed] else [])"
  by (simp add: parse_inspire_xml_def parse_result_def io_defs split: sum.split)

lemma parse_inspire_xml_tasks:
  "tasks (snd (parse_inspire_xml E c w)) = tasks w"
  by (simp add: parse_inspire_xml_def io_defs split: sum.split)

lemma tasklet_trace:
  "trace (snd (bst_inspire_authority_ids_synchronizer E url tmp_dir w)) =
     trace w @ tasklet_events E url tmp_dir (length (tasks w))"
proof -
  let ?dest = "path_join tmp_dir SYNC_LOCAL_INSPIRE_RECORDS_FILE_NAME"
  obtain r w1 where g: "get_inspire_dump E url ?dest w = (r, w1)"
    by (cases "get_inspire_dump E url ?dest w")
  have c: "dump_content E url ?dest = r"
    using get_inspire_dump_result [of E url ?dest w] g by simp
  have t: "trace w1 = trace w @ dump_events E url ?dest"
    using get_inspire_dump_trace [of E url ?dest w] g by simp
  have k: "tasks w1 = tasks w"
    using get_inspire_dump_tasks [of E url ?dest w] g by simp
  show ?thesis
  proof (cases r)
    case (Inl e)
    then show ?thesis
      by (simp add: bst_inspire_authority_ids_synchronizer_def tasklet_events_def g c t)
  next
    case (Inr xml_content)
    then show ?thesis
      by (simp add: bst_inspire_authority_ids_synchronizer_def tasklet_events_def g c t k
          split_beta Let_def parse_inspire_xml_result parse_inspire_xml_trace
          parse_inspire_xml_tasks synchronize_trace write_message_def emit_def
          split: option.split)
  qed
qed

lemma tasklet_outcome:
  "fst (bst_inspire_authority_ids_synchronizer E url tmp_dir w) =
     (case dump_content E url (path_join tmp_dir SYNC_LOCAL_INSPIRE_RECORDS_FILE_NAME) of
        Inl e \<Rightarrow> Inl e
      | Inr xml_content \<Rightarrow> Inr ())"
proof -
  let ?dest = "path_join tmp_dir SYNC_LOCAL_INSPIRE_RECORDS_FILE_NAME"
  obtain r w1 where g: "get_inspire_dump E url ?dest w = (r, w1)"
    by (cases "get_inspire_dump E url ?dest w")
  have c: "dump_content E url ?dest = r"
    using get_inspire_dump_result [of E url ?dest w] g by simp
  show ?thesis
    by (cases r) (simp_all add: bst_inspire_authority_ids_synchronizer_def g c split_beta)
qed

lemma run_updates_eq:
  "run_updates E url tmp_dir w =
     (case dump_content E url (path_join tmp_dir SYNC_LOCAL_INSPIRE_RECORDS_FILE_NAME) of
        Inl e \<Rightarrow> []
      | Inr xml_content \<Rightarrow>
          (case parse_result E xml_content of
             None \<Rightarrow> []
           | Some d \<Rightarrow>
               if d = [] then []
               else updates_loop (get_fieldvalues E) d [] (get_record_ids E)))"
proof -
  let ?dest = "path_join tmp_dir SYNC_LOCAL_INSPIRE_RECORDS_FILE_NAME"
  obtain r w1 where g: "get_inspire_dump E url ?dest w = (r, w1)"
    by (cases "get_inspire_dump E url ?dest w")
  have c: "dump_content E url ?dest = r"
    using get_inspire_dump_result [of E url ?dest w] g by simp
  show ?thesis
    by (cases r) (simp_all add: run_updates_def g c split_beta parse_inspire_xml_result)
qed

lemma payloads_sync_events:
  "payloads (sync_events E rs d dest n) =
     (if updates_loop (get_fieldvalues E) d [] rs = [] then []
      else [concat (map (\<lambda>(r, i). record_format r i)
                     (updates_loop (get_fieldvalues E) d [] rs))])"
  by (simp add: sync_events_def Let_def output_empty_iff output_loop_updates [symmetric])

lemma payloads_append: "payloads (xs @ ys) = payloads xs @ payloads ys"
  by (induction xs rule: payloads.induct) simp_all

lemma payloads_dump_events: "payloads (dump_events E src dest) = []"
  by (simp add: dump_events_def removal_events_def split: sum.split)

lemma payloads_tasklet_events:
  "payloads (tasklet_events E url tmp_dir n) =
     (if run_updates E url tmp_dir w = [] then []
      else [concat (map (\<lambda>(r, i). record_format r i) (run_updates E url tmp_dir w))])"
  by (simp add: tasklet_events_def run_updates_eq Let_def payloads_append payloads_dump_events
      payloads_sync_events split: sum.split option.split)

text \<open>
  C9. The reconciled updates and the payload of a run are the same whatever the world
  the run starts in: the files and the scheduler queue left behind by an earlier run
  (which change the task id that is reported) do not alter them, nor whether the run
  returns. So a second run right after the first, with the same dump and the same
  answers of the record store, computes the same updates and writes the same payload,
  which is the concatenation of the fragments of these updates.
\<close>

theorem synchronizer_payload_independent_of_state:
  "run_updates E url tmp_dir (snd (bst_inspire_authority_ids_synchronizer E url tmp_dir w))
     = run_updates E url tmp_dir w \<and>
   payloads (new_events (snd (bst_inspire_authority_ids_synchronizer E url tmp_dir w))
               (snd (bst_inspire_authority_ids_synchronizer E url tmp_dir
                  (snd (bst_inspire_authority_ids_synchronizer E url tmp_dir w)))))
     = payloads (new_events w (snd (bst_inspire_authority_ids_synchronizer E url tmp_dir w))) \<and>
   run_updates E url tmp_dir w' = run_updates E url tmp_dir w \<and>
   payloads (new_events w' (snd (bst_inspire_authority_ids_synchronizer E url tmp_dir w')))
     = payloads (new_events w (snd (bst_inspire_authority_ids_synchronizer E url tmp_dir w))) \<and>
   payloads (new_events w (snd (bst_inspire_authority_ids_synchronizer E url tmp_dir w)))
     = (if run_updates E url tmp_dir w = [] then []
        else [concat (map (\<lambda>(r, i). record_format r i) (run_updates E url tmp_dir w))]) \<and>
   fst (bst_inspire_authority_ids_synchronizer E url tmp_dir w')
     = fst (bst_inspire_authority_ids_synchronizer E url tmp_dir w)"
  by (simp add: tasklet_trace tasklet_outcome run_updates_eq payloads_tasklet_events [where w = w])

section \<open>Properties of the dump parser\<close>

lemma last_text_Cons:
  "last_text P init (d # ds) = last_text P (if P d then subfield_a_text d else init) ds"
  by (simp add: last_text_def)

lemma scan_datafields_last:
  "scan_datafields i c ds = (last_text reads_inspire i ds, last_text reads_cern c ds)"
proof (induction ds arbitrary: i c)
  case Nil
  show ?case by (simp add: last_text_def)
next
  case (Cons d ds)
  show ?case
    by (cases "find_subfield_a d")
       (simp_all add: Cons.IH last_text_Cons reads_inspire_def reads_cern_def subfield_a_text_def)
qed

lemma record_step_eq:
  "record_step m r =
     (if qualifies r then AList.update (the (internal_id r)) (the (external_id r)) m else m)"
  by (simp add: record_step_def scan_datafields_last qualifies_def external_id_def internal_id_def)

lemma qualifiesE:
  assumes "qualifies r"
  obtains i c where "external_id r = Some i" and "internal_id r = Some c"
    and "i \<noteq> []" and "c \<noteq> []"
  using assms by (auto simp: qualifies_def truthy_def split: option.splits)

lemma record_step_qualifies:
  "qualifies r \<Longrightarrow> external_id r = Some i \<Longrightarrow> internal_id r = Some c \<Longrightarrow>
   record_step m r = AList.update c i m"
  by (simp add: record_step_eq)

lemma record_step_skip:
  "\<not> qualifies r \<Longrightarrow> record_step m r = m"
  by (simp add: record_step_eq)

lemma distinct_record_step:
  "distinct (map fst m) \<Longrightarrow> distinct (map fst (record_step m r))"
  by (simp add: record_step_eq distinct_update)

lemma distinct_records:
  "distinct (map fst m) \<Longrightarrow> distinct (map fst (foldl record_step m rs))"
  by (induction rs rule: rev_induct) (simp_all add: distinct_record_step)

lemma lookup_records:
  "map_of (foldl record_step m rs) k =
     (if filter (yields k) rs = [] then map_of m k
      else external_id (last (filter (yields k) rs)))"
proof (induction rs rule: rev_induct)
  case Nil
  show ?case by simp
next
  case (snoc r rs)
  show ?case
  proof (cases "qualifies r")
    case False
    then have "\<not> yields k r"
      by (simp add: yields_def)
    with False show ?thesis
      using snoc.IH by (simp add: record_step_skip)
  next
    case True
    then obtain i c where ic: "external_id r = Some i" "internal_id r = Some c"
      by (rule qualifiesE)
    with True have "yields k r = (c = k)"
      by (simp add: yields_def)
    then show ?thesis
      using snoc.IH ic by (simp add: record_step_qualifies [OF True ic] update_conv')
  qed
qed

lemma set_update_subset: "set (AList.update k v al) \<subseteq> insert (k, v) (set al)"
  by (induction al) auto

lemma entries_records:
  "(k, v) \<in> set (foldl record_step m rs) \<Longrightarrow>
   (k, v) \<in> set m \<or>
   (\<exists>r \<in> set rs. qualifies r \<and> internal_id r = Some k \<and> external_id r = Some v)"
proof (induction rs rule: rev_induct)
  case Nil
  then show ?case by simp
next
  case (snoc r rs)
  show ?case
  proof (cases "qualifies r")
    case False
    then show ?thesis
      using snoc by (auto simp add: record_step_skip)
  next
    case True
    then obtain i c where ic: "external_id r = Some i" "internal_id r = Some c"
      by (rule qualifiesE)
    from snoc.prems
    have "(k, v) \<in> insert (c, i) (set (foldl record_step m rs))"
      using set_update_subset [of c i "foldl record_step m rs"]
      by (auto simp add: record_step_qualifies [OF True ic])
    then show ?thesis
      using snoc.IH True ic by auto
  qed
qed

lemma keys_records:
  "fst ` set (foldl record_step m rs) = fst ` set m \<union> {k. \<exists>r \<in> set rs. yields k r}"
proof (induction rs rule: rev_induct)
  case Nil
  show ?case by simp
next
  case (snoc r rs)
  show ?case
  proof (cases "qualifies r")
    case False
    then show ?thesis
      using snoc.IH by (auto simp add: record_step_skip yields_def)
  next
    case True
    then obtain i c where ic: "external_id r = Some i" "internal_id r = Some c"
      by (rule qualifiesE)
    show ?thesis
      using snoc.IH True ic
      by (auto simp add: record_step_qualifies [OF True ic] yields_def dom_update)
  qed
qed

lemma length_records:
  "length (foldl record_step [] rs) = card {k. \<exists>r \<in> set rs. yields k r}"
proof -
  have "distinct (map fst (foldl record_step [] rs))"
    by (rule distinct_records) simp
  then have "length (foldl record_step [] rs) = card (fst ` set (foldl record_step [] rs))"
    by (metis distinct_card length_map set_map)
  then show ?thesis
    by (simp add: keys_records)
qed

lemma records_no_qualifying:
  "\<forall>r \<in> set rs. \<not> qualifies r \<Longrightarrow> foldl record_step m rs = m"
  by (induction rs rule: rev_induct) (simp_all add: record_step_skip)

lemma parse_result_ok:
  "etree_fromstring E c = Inr root \<Longrightarrow>
   parse_result E c = Some (foldl record_step [] (children root))"
  by (simp add: parse_result_def)

lemmas xml_defs = xpath_datafield_035_def xpath_subfield_9_def find_subfield_a_def
  text_nodes_def datafield_035_def subfield_def List.map_filter_def

lemma records_ex_root:
  "foldl record_step [] (children ex_root) = [(''CERN-389900'', ''INSPIRE-00146525'')]"
  by (simp add: ex_root_def record_step_def xml_defs truthy_def)

lemma fromstring_ex_env:
  "etree_fromstring ex_env (Some ''<collection>...</collection>'') = Inr ex_root"
  by (simp add: etree_fromstring_def ex_env_def)

text \<open>
  After the first two records of \<open>ex_root\<close> the entry holds the second INSPIRE id of
  the second record; the third record then overwrites it.
\<close>

lemma records_ex_root_take_2:
  "foldl record_step [] (take 2 (children ex_root)) = [(''CERN-389900'', ''INSPIRE-00000002'')]"
  by (simp add: ex_root_def record_step_def xml_defs truthy_def)

text \<open>
  A later datafield tagged \<open>INSPIRE\<close> that has no subfield \<open>a\<close> is passed over; one
  whose subfield \<open>a\<close> has no text resets the identifier to \<open>None\<close>.
\<close>

lemma scan_datafields_without_subfield_a:
  "scan_datafields None None
     [datafield_035 [subfield ''9'' ''INSPIRE'', subfield ''a'' ''INSPIRE-00000001''],
      datafield_035 [subfield ''9'' ''INSPIRE'']]
     = (Some ''INSPIRE-00000001'', None)"
  by (simp add: xml_defs)

lemma scan_datafields_empty_subfield_a:
  "scan_datafields None None
     [datafield_035 [subfield ''9'' ''INSPIRE'', subfield ''a'' ''INSPIRE-00000001''],
      datafield_035 [subfield ''9'' ''INSPIRE'', Element ''subfield'' [(''code'', ''a'')] None [] None]]
     = (None, None)"
  by (simp add: xml_defs)

text \<open>
  C4. For a well-formed dump \<open>parse_inspire_xml\<close> returns a mapping with one entry per
  internal id carried by a record that carries both identifiers: a record that
  qualifies sets the entry of its internal id to its external id, any other record
  leaves the mapping as it is. Within a record the last datafield read for a
  namespace determines the identifier. The entry of an internal id holds the external
  id of the last record in document order that yields this internal id.
\<close>

theorem parse_inspire_xml_last_write_wins:
  assumes "etree_fromstring E xml_content = Inr root"
  shows "\<exists>m. fst (parse_inspire_xml E xml_content w) = Some m \<and>
           distinct (map fst m) \<and>
           length m = card {k. \<exists>r \<in> set (children root). yields k r} \<and>
           (\<forall>k. map_of m k =
                  (if filter (yields k) (children root) = [] then None
                   else external_id (last (filter (yields k) (children root))))) \<and>
           (\<forall>r \<in> set (children root).
              scan_datafields None None (xpath_datafield_035 r)
                = (last_text reads_inspire None (xpath_datafield_035 r),
                   last_text reads_cern None (xpath_datafield_035 r))) \<and>
           (\<forall>r m'. record_step m' r =
                     (if qualifies r
                      then AList.update (the (internal_id r)) (the (external_id r)) m'
                      else m'))"
proof -
  let ?m = "foldl record_step [] (children root)"
  have "fst (parse_inspire_xml E xml_content w) = Some ?m"
    using assms by (simp add: parse_inspire_xml_result parse_result_ok)
  moreover have "distinct (map fst ?m)"
    by (rule distinct_records) simp
  moreover have "length ?m = card {k. \<exists>r \<in> set (children root). yields k r}"
    by (rule length_records)
  moreover have "\<forall>k. map_of ?m k =
      (if filter (yields k) (children root) = [] then None
       else external_id (last (filter (yields k) (children root))))"
    by (simp add: lookup_records)
  ultimately show ?thesis
    by (simp add: scan_datafields_last record_step_eq)
qed

theorem parse_inspire_xml_last_write_wins_witness:
  "etree_fromstring ex_env (Some ''<collection>...</collection>'') = Inr ex_root \<and>
   (\<exists>m. fst (parse_inspire_xml ex_env (Some ''<collection>...</collection>'') w0) = Some m \<and>
        distinct (map fst m) \<and>
        length m = card {k. \<exists>r \<in> set (children ex_root). yields k r} \<and>
        (\<forall>k. map_of m k =
               (if filter (yields k) (children ex_root) = [] then None
                else external_id (last (filter (yields k) (children ex_root)))))) \<and>
   fst (parse_inspire_xml ex_env (Some ''<collection>...</collection>'') w0)
     = Some [(''CERN-389900'', ''INSPIRE-00146525'')]"
proof -
  have h: "etree_fromstring ex_env (Some ''<collection>...</collection>'') = Inr ex_root"
    by (rule fromstring_ex_env)
  have "fst (parse_inspire_xml ex_env (Some ''<collection>...</collection>'') w0)
     = Some [(''CERN-389900'', ''INSPIRE-00146525'')]"
    by (simp add: parse_inspire_xml_result parse_result_ok [OF h] records_ex_root)
  with h parse_inspire_xml_last_write_wins [OF h, of w0] show ?thesis
    by blast
qed

text \<open>
  C5. \<open>None\<close>, the empty string and text that is not well-formed make
  \<open>parse_inspire_xml\<close> return \<open>None\<close> after reporting the failure: the exception of
  the parser is handled inside the function. Well-formed content in which no record
  qualifies makes it return the empty mapping, which is not \<open>None\<close>.
\<close>

theorem parse_inspire_xml_absent_or_empty:
  "parse_inspire_xml E None w = (None, write_message ParseFailed w) \<and>
   parse_inspire_xml E (Some []) w = (None, write_message ParseFailed w) \<and>
   (xml_parser E s = None \<longrightarrow>
      parse_inspire_xml E (Some s) w = (None, write_message ParseFailed w)) \<and>
   (s \<noteq> [] \<and> xml_parser E s = Some root \<and> (\<forall>r \<in> set (children root). \<not> qualifies r) \<longrightarrow>
      parse_inspire_xml E (Some s) w = (Some [], w)) \<and>
   Some ([] :: dict) \<noteq> None"
  by (simp add: parse_inspire_xml_def etree_fromstring_def records_no_qualifying)

theorem parse_inspire_xml_absent_or_empty_witness:
  "xml_parser ex_env ''>record<'' = None \<and>
   fst (parse_inspire_xml ex_env (Some ''>record<'') w0) = None \<and>
   trace (snd (parse_inspire_xml ex_env (Some ''>record<'') w0)) = [Message ParseFailed] \<and>
   ''<record></record>'' \<noteq> [] \<and>
   xml_parser ex_env ''<record></record>'' = Some (Element ''record'' [] None [] None) \<and>
   children (Element ''record'' [] None [] None) = [] \<and>
   parse_inspire_xml ex_env (Some ''<record></record>'') w0 = (Some [], w0)"
  using parse_inspire_xml_absent_or_empty
    [where E = ex_env and s = "''>record<''" and w = w0]
    parse_inspire_xml_absent_or_empty
    [where E = ex_env and s = "''<record></record>''" and w = w0
       and root = "Element ''record'' [] None [] None"]
  by (simp add: ex_env_def w0_def write_message_def emit_def)

text \<open>
  C10. No entry of the mapping returned by \<open>parse_inspire_xml\<close> has an empty key or an
  empty value: every entry is the pair of identifiers of a record of the dump that
  carries both, neither of them \<open>None\<close> or empty, and a record with a missing or empty
  identifier leaves the mapping as it is.
\<close>

theorem parse_inspire_xml_entries_nonempty:
  assumes "fst (parse_inspire_xml E xml_content w) = Some m"
    and "(k, v) \<in> set m"
  shows "k \<noteq> [] \<and> v \<noteq> [] \<and>
         (\<exists>root r. etree_fromstring E xml_content = Inr root \<and> r \<in> set (children root) \<and>
                   internal_id r = Some k \<and> external_id r = Some v) \<and>
         (\<forall>r m'. \<not> truthy (external_id r) \<or> \<not> truthy (internal_id r)
                   \<longrightarrow> record_step m' r = m')"
proof -
  from assms(1) obtain root where root: "etree_fromstring E xml_content = Inr root"
    and m: "m = foldl record_step [] (children root)"
    by (auto simp add: parse_inspire_xml_def split: sum.splits)
  from assms(2) m obtain r where r: "r \<in> set (children root)" "qualifies r"
    "internal_id r = Some k" "external_id r = Some v"
    using entries_records [of k v "[]" "children root"] by auto
  from r have "k \<noteq> []" and "v \<noteq> []"
    by (auto simp add: qualifies_def truthy_def)
  moreover have "\<forall>r m'. \<not> truthy (external_id r) \<or> \<not> truthy (internal_id r)
      \<longrightarrow> record_step m' r = m'"
    by (auto simp add: record_step_skip qualifies_def)
  ultimately show ?thesis
    using root r by blast
qed

theorem parse_inspire_xml_entries_nonempty_witness:
  "fst (parse_inspire_xml ex_env (Some ''<collection>...</collection>'') w0)
     = Some [(''CERN-389900'', ''INSPIRE-00146525'')] \<and>
   (''CERN-389900'', ''INSPIRE-00146525'') \<in> set [(''CERN-389900'', ''INSPIRE-00146525'')] \<and>
   ''CERN-389900'' \<noteq> [] \<and> ''INSPIRE-00146525'' \<noteq> [] \<and>
   (\<exists>root r. etree_fromstring ex_env (Some ''<collection>...</collection>'') = Inr root \<and>
             r \<in> set (children root) \<and>
             internal_id r = Some ''CERN-389900'' \<and> external_id r = Some ''INSPIRE-00146525'')"
proof -
  have h: "fst (parse_inspire_xml ex_env (Some ''<collection>...</collection>'') w0)
     = Some [(''CERN-389900'', ''INSPIRE-00146525'')]"
    by (simp add: parse_inspire_xml_result parse_result_ok [OF fromstring_ex_env] records_ex_root)
  have e: "(''CERN-389900'', ''INSPIRE-00146525'') \<in> set [(''CERN-389900'', ''INSPIRE-00146525'')]"
    by simp
  from parse_inspire_xml_entries_nonempty [OF h e] h e show ?thesis
    by blast
qed

text \<open>
  The end-to-end scenario of the spec, run twice: the second run reports another task
  id and writes the same payload.
\<close>

theorem synchronizer_payload_independent_of_state_witness:
  "bst_inspire_authority_ids_synchronizer ex_env ex_url ''/tmp'' w0
     = (Inr (), snd (bst_inspire_authority_ids_synchronizer ex_env ex_url ''/tmp'' w0)) \<and>
   new_events w0 (snd (bst_inspire_authority_ids_synchronizer ex_env ex_url ''/tmp'' w0))
     = [Urlretrieve ex_url ''/tmp/HepNames-records.xml.gz'',
        GzipRead ''/tmp/HepNames-records.xml.gz'',
        OsRemove ''/tmp/HepNames-records.xml.gz'',
        Message (IdsRequested 2),
        FileWrite ''/tmp/cds-records-updates.xml'' (record_format 2108556 ''INSPIRE-00146525''),
        Message (UpdatesWritten ''/tmp/cds-records-updates.xml''),
        Submission (submission_args ''/tmp/cds-records-updates.xml''),
        Message (TaskSubmitted 1)] \<and>
   run_updates ex_env ex_url ''/tmp'' w0 = [(2108556, ''INSPIRE-00146525'')] \<and>
   payloads
     (new_events (snd (bst_inspire_authority_ids_synchronizer ex_env ex_url ''/tmp'' w0))
        (snd (bst_inspire_authority_ids_synchronizer ex_env ex_url ''/tmp''
                (snd (bst_inspire_authority_ids_synchronizer ex_env ex_url ''/tmp'' w0)))))
     = [record_format 2108556 ''INSPIRE-00146525'']"
proof -
  have d: "dump_content ex_env ex_url ''/tmp/HepNames-records.xml.gz''
      = Inr (Some ''<collection>...</collection>'')"
    by (simp add: dump_content_def ex_env_def)
  have p: "parse_result ex_env (Some ''<collection>...</collection>'')
      = Some [(''CERN-389900'', ''INSPIRE-00146525'')]"
    by (simp add: parse_result_ok [OF fromstring_ex_env] records_ex_root)
  have j: "path_join ''/tmp'' SYNC_LOCAL_INSPIRE_RECORDS_FILE_NAME = ''/tmp/HepNames-records.xml.gz''"
    "path_join ''/tmp'' SYNC_LOCAL_CDS_RECORDS_UPDATES_FILE_NAME = ''/tmp/cds-records-updates.xml''"
    by (simp_all add: path_join_def SYNC_LOCAL_INSPIRE_RECORDS_FILE_NAME_def
        SYNC_LOCAL_CDS_RECORDS_UPDATES_FILE_NAME_def)
  have u: "run_updates ex_env ex_url ''/tmp'' w0 = [(2108556, ''INSPIRE-00146525'')]"
    by (simp add: run_updates_eq j d p)
       (simp add: get_record_ids_def ex_env_def ex_fieldvalues_def get_ccid_def mark_defs
        lookup_key_def format_opt_def)
  have o: "output_loop (get_fieldvalues ex_env) [(''CERN-389900'', ''INSPIRE-00146525'')] []
             (get_record_ids ex_env) = record_format 2108556 ''INSPIRE-00146525''"
    by (simp add: get_record_ids_def ex_env_def ex_fieldvalues_def get_ccid_def mark_defs
        lookup_key_def format_opt_def)
  have t: "tasklet_events ex_env ex_url ''/tmp'' 0
     = [Urlretrieve ex_url ''/tmp/HepNames-records.xml.gz'',
        GzipRead ''/tmp/HepNames-records.xml.gz'',
        OsRemove ''/tmp/HepNames-records.xml.gz'',
        Message (IdsRequested 2),
        FileWrite ''/tmp/cds-records-updates.xml'' (record_format 2108556 ''INSPIRE-00146525''),
        Message (UpdatesWritten ''/tmp/cds-records-updates.xml''),
        Submission (submission_args ''/tmp/cds-records-updates.xml''),
        Message (TaskSubmitted 1)]"
    by (simp add: tasklet_events_def j d p sync_events_def o record_format_nonempty)
       (simp add: dump_events_def removal_events_def get_record_ids_def ex_env_def)
  have r: "fst (bst_inspire_authority_ids_synchronizer ex_env ex_url ''/tmp'' w0) = Inr ()"
    by (simp add: tasklet_outcome j d)
  show ?thesis
    using synchronizer_payload_independent_of_state [of ex_env ex_url "''/tmp''" w0 w0] u t r
    by (simp add: tasklet_trace w0_def prod_eq_iff)
qed

end
